theory Spec2Isabelle
  imports Main "HOL-Library.Sublist"
begin

section \<open>Values, rows and the store behind the member service\<close>

text \<open>
  The service \<^verbatim>\<open>src/services/memberService.js\<close> talks to two Sequelize models,
  \<^verbatim>\<open>Member\<close> and \<^verbatim>\<open>Address\<close>, to a logger, to \<^verbatim>\<open>moment\<close> and to
  \<^verbatim>\<open>node-uuid\<close>. None of these collaborators is part of the sources, so each of them is
  modelled by what the service sees of it: the two tables are lists of typed rows, every
  call on the persistence layer is appended to a trace in issue order, and each call can be
  rejected by the store (the function \<open>faults\<close> of the environment says whether the
  \<open>n\<close>-th call on the store rejects, and with which error).
\<close>

text \<open>
  Modelled from the spec: the declaration of the \<^verbatim>\<open>Address\<close> model is missing from
  the sources. Its columns are those of the data model, section 3; the service itself
  names \<^verbatim>\<open>postcode\<close>, \<^verbatim>\<open>state\<close> and \<^verbatim>\<open>country\<close>.
\<close>

record address =
  street :: string
  city :: string
  state :: string
  postcode :: string
  country :: string

record address_row =
  addressId :: nat
  addressAttrs :: address

text \<open>
  \<^verbatim>\<open>moment(s, 'DD/MM/YYYY').toDate()\<close> is kept symbolic: the date obtained from the
  input text under the given format.
\<close>

datatype date = MomentToDate string string

text \<open>The request object handed to \<^verbatim>\<open>createMember\<close> and \<^verbatim>\<open>updateMember\<close>.\<close>

record member =
  firstName :: string
  lastName :: string
  email :: string
  gender :: string
  dateOfBirth :: string
  primaryPhoneNumber :: string
  secondaryPhoneNumber :: string
  residentialAddress :: address
  postalAddress :: address
  membershipType :: string

text \<open>The object literal built by \<^verbatim>\<open>setupMember\<close>, the argument of \<^verbatim>\<open>Member.create\<close>.\<close>

record member_attrs =
  mFirstName :: string
  mLastName :: string
  mEmail :: string
  mGender :: string
  mDateOfBirth :: date
  mPrimaryPhoneNumber :: string
  mSecondaryPhoneNumber :: string
  residentialAddressId :: nat
  postalAddressId :: nat
  mMembershipType :: string
  verified :: bool
  verificationHash :: string

text \<open>A row of \<^verbatim>\<open>Member\<close>: the created attributes and the generated primary key.\<close>

record member_row = member_attrs +
  memberId :: nat

text \<open>
  JavaScript values, for the objects whose set of keys matters: an object is its list of
  own properties in insertion order, and a Sequelize instance is kept apart from a plain
  object by its wrapper (the instance holds its attributes under \<^verbatim>\<open>dataValues\<close>).
\<close>

datatype jsval =
    JUndefined
  | JNull
  | JBool bool
  | JNum nat
  | JStr string
  | JDate date
  | JObj "(string \<times> jsval) list"
  | JInstance "(string \<times> jsval) list"

text \<open>
  What a promise can be rejected with: a bare string (\<^verbatim>\<open>Q.reject('...')\<close>), an
  \<^verbatim>\<open>Error\<close> object with its message (\<^verbatim>\<open>throw new Error(...)\<close>), the
  \<^verbatim>\<open>TypeError\<close> of a property read on \<^verbatim>\<open>null\<close>, or whatever the store rejects with.
\<close>

datatype error =
    Reason string
  | Error string
  | TypeError
  | StoreFailure string

text \<open>The attributes \<^verbatim>\<open>findForVerification\<close> projects: \<^verbatim>\<open>['id', 'email', 'verified']\<close>.\<close>

record verification_values =
  vId :: nat
  vEmail :: string
  vVerified :: bool

datatype call =
    Member_find string
  | Address_findOrCreate address
  | Member_create member_attrs
  | Member_update "(string \<times> jsval) list" string
  | Member_findAll
  | Member_findOne string
  | instance_update nat

datatype log_entry =
    MemberSignUpEvent member_row
  | MemberSignUpEventCount nat
  | InfoEvent string verification_values
  | ErrorLogged error
  | ErrorTagged string error

record world =
  members :: "member_row list"
  addresses :: "address_row list"
  trace :: "call list"
  log :: "log_entry list"
  uuidCalls :: nat

record env =
  faults :: "nat \<Rightarrow> error option"
  uuid_v4 :: "nat \<Rightarrow> string"

text \<open>
  Issuing a call on the store: the call is recorded, and the environment decides whether
  the store rejects it.
\<close>

definition issue :: "env \<Rightarrow> call \<Rightarrow> world \<Rightarrow> error option \<times> world" where
  "issue e c w = (faults e (length (trace w)), w\<lparr>trace := trace w @ [c]\<rparr>)"

text \<open>A primary key no row of the table has yet.\<close>

definition fresh_id :: "nat list \<Rightarrow> nat" where
  "fresh_id ids = Suc (fold max ids 0)"


section \<open>The persistence layer as the service calls it\<close>

text \<open>
  \<^verbatim>\<open>Address.findOrCreate({where: a, defaults: a})\<close>: the first row whose attributes
  equal \<open>a\<close>, else a new row holding \<open>a\<close>. The result is the pair of the row and
  the flag saying whether it was created.
\<close>

definition findOrCreate :: "env \<Rightarrow> address \<Rightarrow> world \<Rightarrow> (error + address_row \<times> bool) \<times> world" where
  "findOrCreate e a w =
     (case issue e (Address_findOrCreate a) w of
        (Some err, w1) \<Rightarrow> (Inl err, w1)
      | (None, w1) \<Rightarrow>
          (case find (\<lambda>r. addressAttrs r = a) (addresses w1) of
             Some r \<Rightarrow> (Inr (r, False), w1)
           | None \<Rightarrow>
               (let r = \<lparr>addressId = fresh_id (map addressId (addresses w1)), addressAttrs = a\<rparr>
                in (Inr (r, True), w1\<lparr>addresses := addresses w1 @ [r]\<rparr>))))"

text \<open>\<^verbatim>\<open>Member.find({where: {email: x}})\<close>: the first row with that email, or null.\<close>

definition find_by_email :: "env \<Rightarrow> string \<Rightarrow> world \<Rightarrow> (error + member_row option) \<times> world" where
  "find_by_email e x w =
     (case issue e (Member_find x) w of
        (Some err, w1) \<Rightarrow> (Inl err, w1)
      | (None, w1) \<Rightarrow> (Inr (find (\<lambda>r. mEmail r = x) (members w1)), w1))"

text \<open>\<^verbatim>\<open>Member.create(values)\<close>: a new row with the values and a generated key.\<close>

definition with_id :: "member_attrs \<Rightarrow> nat \<Rightarrow> member_row" where
  "with_id v n =
     \<lparr>mFirstName = mFirstName v, mLastName = mLastName v, mEmail = mEmail v,
      mGender = mGender v, mDateOfBirth = mDateOfBirth v,
      mPrimaryPhoneNumber = mPrimaryPhoneNumber v,
      mSecondaryPhoneNumber = mSecondaryPhoneNumber v,
      residentialAddressId = residentialAddressId v, postalAddressId = postalAddressId v,
      mMembershipType = mMembershipType v, verified = verified v,
      verificationHash = verificationHash v, memberId = n\<rparr>"

definition save :: "env \<Rightarrow> member_attrs \<Rightarrow> world \<Rightarrow> (error + member_row) \<times> world" where
  "save e v w =
     (case issue e (Member_create v) w of
        (Some err, w1) \<Rightarrow> (Inl err, w1)
      | (None, w1) \<Rightarrow>
          (let r = with_id v (fresh_id (map memberId (members w1)))
           in (Inr r, w1\<lparr>members := members w1 @ [r]\<rparr>)))"

text \<open>
  \<^verbatim>\<open>Member.findOne({where: {verificationHash: h}, attributes: ['id', 'email', 'verified']})\<close>:
  the projection of the first row with that hash, or null.
\<close>

definition projection :: "member_row \<Rightarrow> verification_values" where
  "projection r = \<lparr>vId = memberId r, vEmail = mEmail r, vVerified = verified r\<rparr>"

definition findOne :: "env \<Rightarrow> string \<Rightarrow> world \<Rightarrow> (error + verification_values option) \<times> world" where
  "findOne e h w =
     (case issue e (Member_findOne h) w of
        (Some err, w1) \<Rightarrow> (Inl err, w1)
      | (None, w1) \<Rightarrow>
          (Inr (map_option projection (find (\<lambda>r. verificationHash r = h) (members w1))), w1))"

text \<open>
  \<^verbatim>\<open>member.update({verified: true})\<close> on an instance: the row with the instance's key
  gets the flag, and the instance comes back with the flag set.
\<close>

definition set_verified :: "nat \<Rightarrow> member_row \<Rightarrow> member_row" where
  "set_verified n r = (if memberId r = n then r\<lparr>verified := True\<rparr> else r)"

definition update_instance :: "env \<Rightarrow> verification_values \<Rightarrow> world \<Rightarrow> (error + verification_values) \<times> world" where
  "update_instance e m w =
     (case issue e (instance_update (vId m)) w of
        (Some err, w1) \<Rightarrow> (Inl err, w1)
      | (None, w1) \<Rightarrow>
          (Inr (m\<lparr>vVerified := True\<rparr>), w1\<lparr>members := map (set_verified (vId m)) (members w1)\<rparr>))"

text \<open>The logger only appends: its calls never throw.\<close>

definition logged :: "log_entry \<Rightarrow> world \<Rightarrow> world" where
  "logged x w = w\<lparr>log := log w @ [x]\<rparr>"

section \<open>Verification of a member\<close>

definition findForVerification :: "env \<Rightarrow> string \<Rightarrow> world \<Rightarrow> (error + verification_values) \<times> world" where
  "findForVerification e h w =
     (case findOne e h w of
        (Inl err, w1) \<Rightarrow> (Inl err, w1)
      | (Inr None, w1) \<Rightarrow> (Inl (Error (''Match not found for hash:'' @ h)), w1)
      | (Inr (Some result), w1) \<Rightarrow> (Inr result, w1))"

definition markAsVerified :: "env \<Rightarrow> verification_values \<Rightarrow> world \<Rightarrow> (error + verification_values) \<times> world" where
  "markAsVerified e m w =
     (if \<not> vVerified m then update_instance e m w else (Inr m, w))"

definition verify :: "env \<Rightarrow> string \<Rightarrow> world \<Rightarrow> (error + verification_values) \<times> world" where
  "verify e h w =
     (case (case findForVerification e h w of
              (Inl err, w1) \<Rightarrow> (Inl err, w1)
            | (Inr m, w1) \<Rightarrow> markAsVerified e m w1) of
        (Inr verifiedMember, w2) \<Rightarrow>
          (Inr verifiedMember, logged (InfoEvent ''[member-verification-event]'' verifiedMember) w2)
      | (Inl err, w2) \<Rightarrow>
          (Inl (Error ''Account could not be verified''),
           logged (ErrorTagged ''[member-verification-failed]'' err) w2))"


section \<open>Signing a member up\<close>

text \<open>
  \<^verbatim>\<open>Q.all\<close> joins promises whose calls have all been issued already, in the order of
  the array: the effects of every call stand, and the joined promise is rejected as soon
  as one of them is. The model reports the rejection of the earliest call in the array.
\<close>

definition Q_all2 :: "error + 'a \<Rightarrow> error + 'b \<Rightarrow> error + 'a \<times> 'b" where
  "Q_all2 p q =
     (case p of
        Inl err \<Rightarrow> Inl err
      | Inr x \<Rightarrow> (case q of Inl err \<Rightarrow> Inl err | Inr y \<Rightarrow> Inr (x, y)))"

definition Q_all3 :: "error + 'a \<Rightarrow> error + 'b \<Rightarrow> error + 'c \<Rightarrow> error + 'a \<times> 'b \<times> 'c" where
  "Q_all3 p q r =
     (case p of
        Inl err \<Rightarrow> Inl err
      | Inr x \<Rightarrow> (case Q_all2 q r of Inl err \<Rightarrow> Inl err | Inr yz \<Rightarrow> Inr (x, yz)))"

definition createVerificationHash :: "env \<Rightarrow> world \<Rightarrow> string \<times> world" where
  "createVerificationHash e w = (uuid_v4 e (uuidCalls w), w\<lparr>uuidCalls := Suc (uuidCalls w)\<rparr>)"

definition setupMember ::
  "env \<Rightarrow> member \<Rightarrow> address_row \<times> bool \<Rightarrow> address_row \<times> bool \<Rightarrow> world \<Rightarrow> member_attrs \<times> world" where
  "setupMember e newMember residential postal w =
     (case createVerificationHash e w of
        (h, w1) \<Rightarrow>
          (\<lparr>mFirstName = firstName newMember,
            mLastName = lastName newMember,
            mEmail = email newMember,
            mGender = gender newMember,
            mDateOfBirth = MomentToDate (dateOfBirth newMember) ''DD/MM/YYYY'',
            mPrimaryPhoneNumber = primaryPhoneNumber newMember,
            mSecondaryPhoneNumber = secondaryPhoneNumber newMember,
            residentialAddressId = addressId (fst residential),
            postalAddressId = addressId (fst postal),
            mMembershipType = membershipType newMember,
            verified = False,
            verificationHash = h\<rparr>, w1))"

definition logEvent :: "member_row \<Rightarrow> world \<Rightarrow> world" where
  "logEvent saveResult w = logged (MemberSignUpEvent saveResult) w"

definition getMemberAddresses ::
  "env \<Rightarrow> member \<Rightarrow> world \<Rightarrow> ((error + address_row \<times> bool) \<times> (error + address_row \<times> bool)) \<times> world" where
  "getMemberAddresses e newMember w =
     (case findOrCreate e (residentialAddress newMember) w of
        (p, w1) \<Rightarrow>
          (case findOrCreate e (postalAddress newMember) w1 of
             (q, w2) \<Rightarrow> ((p, q), w2)))"

definition createMember :: "env \<Rightarrow> member \<Rightarrow> world \<Rightarrow> (error + member_row) \<times> world" where
  "createMember e newMember w =
     (case getMemberAddresses e newMember w of
        ((p, q), w2) \<Rightarrow>
          (case Q_all2 p q of
             Inl err \<Rightarrow> (Inl err, w2)
           | Inr (residential, postal) \<Rightarrow>
               (case setupMember e newMember residential postal w2 of
                  (values, w3) \<Rightarrow>
                    (case save e values w3 of
                       (Inl err, w4) \<Rightarrow> (Inl err, w4)
                     | (Inr savedMember, w4) \<Rightarrow> (Inr savedMember, logEvent savedMember w4)))))"

section \<open>Updating a member\<close>

text \<open>The object literal the \<^verbatim>\<open>spread\<close> callback of \<^verbatim>\<open>updateMember\<close> returns.\<close>

definition updatedMember ::
  "member \<Rightarrow> address_row \<times> bool \<Rightarrow> address_row \<times> bool \<Rightarrow> (string \<times> jsval) list" where
  "updatedMember m residential postal =
     [(''firstName'', JStr (firstName m)),
      (''lastName'', JStr (lastName m)),
      (''email'', JStr (email m)),
      (''gender'', JStr (gender m)),
      (''dateOfBirth'', JDate (MomentToDate (dateOfBirth m) ''DD/MM/YYYY'')),
      (''primaryPhoneNumber'', JStr (primaryPhoneNumber m)),
      (''secondaryPhoneNumber'', JStr (secondaryPhoneNumber m)),
      (''residentialAddress'', JNum (addressId (fst residential))),
      (''postalAddress'', JNum (addressId (fst postal))),
      (''membershipType'', JStr (membershipType m))]"

text \<open>
  \<^verbatim>\<open>Member.update(values, {where: {email: x}})\<close> writes, into every row with that
  email, the entries of \<open>values\<close> whose key is a column of the table; an entry under any
  other key is dropped. The promise resolves to the number of rows written.
\<close>

definition set_column :: "string \<Rightarrow> jsval \<Rightarrow> member_row \<Rightarrow> member_row" where
  "set_column k v r =
     (case v of
        JStr s \<Rightarrow>
          (if k = ''firstName'' then r\<lparr>mFirstName := s\<rparr>
           else if k = ''lastName'' then r\<lparr>mLastName := s\<rparr>
           else if k = ''email'' then r\<lparr>mEmail := s\<rparr>
           else if k = ''gender'' then r\<lparr>mGender := s\<rparr>
           else if k = ''primaryPhoneNumber'' then r\<lparr>mPrimaryPhoneNumber := s\<rparr>
           else if k = ''secondaryPhoneNumber'' then r\<lparr>mSecondaryPhoneNumber := s\<rparr>
           else if k = ''membershipType'' then r\<lparr>mMembershipType := s\<rparr>
           else if k = ''verificationHash'' then r\<lparr>verificationHash := s\<rparr>
           else r)
      | JNum n \<Rightarrow>
          (if k = ''id'' then r\<lparr>memberId := n\<rparr>
           else if k = ''residentialAddressId'' then r\<lparr>residentialAddressId := n\<rparr>
           else if k = ''postalAddressId'' then r\<lparr>postalAddressId := n\<rparr>
           else r)
      | JBool b \<Rightarrow> (if k = ''verified'' then r\<lparr>verified := b\<rparr> else r)
      | JDate d \<Rightarrow> (if k = ''dateOfBirth'' then r\<lparr>mDateOfBirth := d\<rparr> else r)
      | _ \<Rightarrow> r)"

fun set_columns :: "(string \<times> jsval) list \<Rightarrow> member_row \<Rightarrow> member_row" where
  "set_columns [] r = r"
| "set_columns ((k, v) # kvs) r = set_columns kvs (set_column k v r)"

definition update_where_email ::
  "env \<Rightarrow> (string \<times> jsval) list \<Rightarrow> string \<Rightarrow> world \<Rightarrow> (error + nat) \<times> world" where
  "update_where_email e values x w =
     (case issue e (Member_update values x) w of
        (Some err, w1) \<Rightarrow> (Inl err, w1)
      | (None, w1) \<Rightarrow>
          (Inr (length (filter (\<lambda>r. mEmail r = x) (members w1))),
           w1\<lparr>members := map (\<lambda>r. if mEmail r = x then set_columns values r else r) (members w1)\<rparr>))"

definition updateMember :: "env \<Rightarrow> member \<Rightarrow> world \<Rightarrow> (error + nat) \<times> world" where
  "updateMember e m w =
     (case find_by_email e (email m) w of
        (u, w1) \<Rightarrow>
          (case findOrCreate e (residentialAddress m) w1 of
             (p, w2) \<Rightarrow>
               (case findOrCreate e (postalAddress m) w2 of
                  (q, w3) \<Rightarrow>
                    (case Q_all3 u p q of
                       Inl err \<Rightarrow> (Inl err, w3)
                     | Inr (None, residential, postal) \<Rightarrow>
                         (Inl (Reason ''Error: User email does not exist''), w3)
                     | Inr (Some user, residential, postal) \<Rightarrow>
                         (case update_where_email e (updatedMember m residential postal) (email m) w3 of
                            (Inl err, w4) \<Rightarrow> (Inl err, w4)
                          | (Inr a, w4) \<Rightarrow> (Inr a, logged (MemberSignUpEventCount a) w4))))))"


section \<open>Listing the members\<close>

text \<open>
  Reading a property: on \<^verbatim>\<open>null\<close> and \<^verbatim>\<open>undefined\<close> the read throws, a key an
  object does not have reads as \<^verbatim>\<open>undefined\<close>, and an instance answers
  \<^verbatim>\<open>dataValues\<close> with the plain object of its attributes.
\<close>

definition read_key :: "(string \<times> jsval) list \<Rightarrow> string \<Rightarrow> jsval" where
  "read_key kvs k = (case map_of kvs k of Some v \<Rightarrow> v | None \<Rightarrow> JUndefined)"

fun property :: "jsval \<Rightarrow> string \<Rightarrow> error + jsval" where
  "property JUndefined k = Inl TypeError"
| "property JNull k = Inl TypeError"
| "property (JObj kvs) k = Inr (read_key kvs k)"
| "property (JInstance dv) k = Inr (if k = ''dataValues'' then JObj dv else read_key dv k)"
| "property v k = Inr JUndefined"

text \<open>
  \<^verbatim>\<open>Object.assign({}, a, b)\<close>: the own properties of \<open>a\<close>, then those of \<open>b\<close>; a
  key already present keeps its place and takes the later value. Both sources are plain
  objects whenever \<^verbatim>\<open>transformMember\<close> gets that far on a query result; a source that
  is \<^verbatim>\<open>null\<close> or \<^verbatim>\<open>undefined\<close> is skipped.
\<close>

fun put :: "string \<Rightarrow> jsval \<Rightarrow> (string \<times> jsval) list \<Rightarrow> (string \<times> jsval) list" where
  "put k v [] = [(k, v)]"
| "put k v ((k', v') # kvs) = (if k' = k then (k, v) # kvs else (k', v') # put k v kvs)"

fun put_all :: "(string \<times> jsval) list \<Rightarrow> (string \<times> jsval) list \<Rightarrow> (string \<times> jsval) list" where
  "put_all [] target = target"
| "put_all ((k, v) # kvs) target = put_all kvs (put k v target)"

definition own_properties :: "jsval \<Rightarrow> (string \<times> jsval) list" where
  "own_properties v = (case v of JObj kvs \<Rightarrow> kvs | _ \<Rightarrow> [])"

definition Object_assign :: "jsval \<Rightarrow> jsval \<Rightarrow> jsval" where
  "Object_assign a b = JObj (put_all (own_properties b) (put_all (own_properties a) []))"

definition transformMember :: "jsval \<Rightarrow> error + jsval" where
  "transformMember member =
     (case property member ''dataValues'' of
        Inl err \<Rightarrow> Inl err
      | Inr newMemberRoot \<Rightarrow>
          (case property newMemberRoot ''residentialAddress'' of
             Inl err \<Rightarrow> Inl err
           | Inr residential \<Rightarrow>
               (case property residential ''dataValues'' of
                  Inl err \<Rightarrow> Inl err
                | Inr newResidentialAddressRoot \<Rightarrow>
                    Inr (Object_assign newMemberRoot
                           (JObj [(''residentialAddress'', newResidentialAddressRoot)])))))"

fun transformMembers :: "jsval list \<Rightarrow> error + jsval list" where
  "transformMembers [] = Inr []"
| "transformMembers (member # rest) =
     (case transformMember member of
        Inl err \<Rightarrow> Inl err
      | Inr x \<Rightarrow> (case transformMembers rest of Inl err \<Rightarrow> Inl err | Inr xs \<Rightarrow> Inr (x # xs)))"

definition handleError :: "error \<Rightarrow> world \<Rightarrow> (error + jsval list) \<times> world" where
  "handleError err w =
     (Inl (Reason ''An error has occurred while fetching members''), logged (ErrorLogged err) w)"

text \<open>
  \<^verbatim>\<open>Member.findAll(query)\<close> with the query of \<^verbatim>\<open>list\<close>: one instance per row, holding
  the attributes \<^verbatim>\<open>id, firstName, lastName, membershipType, verified\<close> and, under the
  alias \<^verbatim>\<open>residentialAddress\<close>, the instance of the joined address with the attributes
  \<^verbatim>\<open>postcode, state, country\<close> (\<^verbatim>\<open>null\<close> when the join finds no address).
\<close>

definition included_address :: "address_row list \<Rightarrow> nat \<Rightarrow> jsval" where
  "included_address rows n =
     (case find (\<lambda>a. addressId a = n) rows of
        None \<Rightarrow> JNull
      | Some a \<Rightarrow>
          JInstance [(''postcode'', JStr (postcode (addressAttrs a))),
                     (''state'', JStr (state (addressAttrs a))),
                     (''country'', JStr (country (addressAttrs a)))])"

definition queried :: "address_row list \<Rightarrow> member_row \<Rightarrow> jsval" where
  "queried rows r =
     JInstance [(''id'', JNum (memberId r)),
                (''firstName'', JStr (mFirstName r)),
                (''lastName'', JStr (mLastName r)),
                (''membershipType'', JStr (mMembershipType r)),
                (''verified'', JBool (verified r)),
                (''residentialAddress'', included_address rows (residentialAddressId r))]"

definition findAll :: "env \<Rightarrow> world \<Rightarrow> (error + jsval list) \<times> world" where
  "findAll e w =
     (case issue e Member_findAll w of
        (Some err, w1) \<Rightarrow> (Inl err, w1)
      | (None, w1) \<Rightarrow> (Inr (map (queried (addresses w1)) (members w1)), w1))"

definition list :: "env \<Rightarrow> world \<Rightarrow> (error + jsval list) \<times> world" where
  "list e w =
     (case findAll e w of
        (Inl err, w1) \<Rightarrow> handleError err w1
      | (Inr memberQueryResult, w1) \<Rightarrow>
          (case transformMembers memberQueryResult of
             Inl err \<Rightarrow> handleError err w1
           | Inr xs \<Rightarrow> (Inr xs, w1)))"

section \<open>The group controller\<close>

text \<open>
  Of the group controller the sources hold the tests only (the second part of
  \<^verbatim>\<open>src/backend/src/streamClient.js\<close>): the controller itself, the input validator and
  the group store are absent. This section follows sections 4.1, 4.2 and 6 of the
  specification. The stream client is the collaborator the tests stub: every call of
  \<^verbatim>\<open>publish\<close> is recorded with its arguments, and the environment says whether the
  \<open>n\<close>-th call is rejected.
\<close>

record group =
  groupId :: string
  branchId :: string
  name :: string
  description :: string

datatype payload = GroupRecord group | IdOnly string

datatype body = GroupJson group | GroupsJson "group list"

text \<open>A response is either \<^verbatim>\<open>res.sendStatus(n)\<close> or \<^verbatim>\<open>res.status(n).json(b)\<close>.\<close>

datatype response = SendStatus nat | StatusJson nat body

record stream_world =
  groups :: "group list"
  published :: "(string \<times> payload) list"
  idsGenerated :: nat

record stream_env =
  publishRejects :: "nat \<Rightarrow> bool"
  generateId :: "nat \<Rightarrow> string"

definition publish :: "stream_env \<Rightarrow> string \<Rightarrow> payload \<Rightarrow> stream_world \<Rightarrow> bool \<times> stream_world" where
  "publish e eventType p w =
     (\<not> publishRejects e (length (published w)), w\<lparr>published := published w @ [(eventType, p)]\<rparr>)"

text \<open>
  Modelled from the spec: the validator \<^verbatim>\<open>isNonEmptyString\<close> of
  \<^verbatim>\<open>lib/inputValidator\<close> is missing from the sources. Section 4.1: a pure predicate on a
  raw value, false for \<^verbatim>\<open>null\<close> (here \<open>None\<close>) and for the empty string.
\<close>

definition isNonEmptyString :: "string option \<Rightarrow> bool" where
  "isNonEmptyString v = (case v of None \<Rightarrow> False | Some s \<Rightarrow> s \<noteq> [])"

text \<open>The text of a value that has passed the check.\<close>

definition text_of :: "string option \<Rightarrow> string" where
  "text_of v = (case v of None \<Rightarrow> [] | Some s \<Rightarrow> s)"

text \<open>
  Modelled from the spec: \<^verbatim>\<open>groupsController.createGroup\<close> is missing from the sources.
  Section 4.2: it fails fast with 400 when the name or the description fails the non-empty
  check, before any publish; otherwise it synthesizes an id, builds the group scoped to the
  branch, publishes \<^verbatim>\<open>group-created\<close> with the full record and answers 200 with the
  record; a rejected publish is answered with 500.
\<close>

definition createGroup ::
  "stream_env \<Rightarrow> string \<Rightarrow> string option \<Rightarrow> string option \<Rightarrow> stream_world \<Rightarrow> response \<times> stream_world" where
  "createGroup e branch n d w =
     (if isNonEmptyString n \<and> isNonEmptyString d then
        (let g = \<lparr>groupId = generateId e (idsGenerated w), branchId = branch,
                  name = text_of n, description = text_of d\<rparr>;
             w1 = w\<lparr>idsGenerated := Suc (idsGenerated w)\<rparr>
         in case publish e ''group-created'' (GroupRecord g) w1 of
              (True, w2) \<Rightarrow> (StatusJson 200 (GroupJson g), w2)
            | (False, w2) \<Rightarrow> (SendStatus 500, w2))
      else (SendStatus 400, w))"

text \<open>
  Modelled from the spec: \<^verbatim>\<open>groupsController.updateGroup\<close> is missing from the sources.
  Section 4.2: the input is validated as for creation; the group is looked up by branch and
  id among all groups, and a missing group takes the error path of a failed publish;
  \<^verbatim>\<open>group-edited\<close> is published with the merged record, which is the answer.
\<close>

definition updateGroup ::
  "stream_env \<Rightarrow> string \<Rightarrow> string \<Rightarrow> string option \<Rightarrow> string option \<Rightarrow> stream_world
     \<Rightarrow> response \<times> stream_world" where
  "updateGroup e branch gid n d w =
     (if isNonEmptyString n \<and> isNonEmptyString d then
        (case find (\<lambda>g. branchId g = branch \<and> groupId g = gid) (groups w) of
           None \<Rightarrow> (SendStatus 500, w)
         | Some g \<Rightarrow>
             (let merged = g\<lparr>name := text_of n, description := text_of d\<rparr>
              in case publish e ''group-edited'' (GroupRecord merged) w of
                   (True, w1) \<Rightarrow> (StatusJson 200 (GroupJson merged), w1)
                 | (False, w1) \<Rightarrow> (SendStatus 500, w1)))
      else (SendStatus 400, w))"

text \<open>
  Modelled from the spec: \<^verbatim>\<open>groupsController.deleteGroup\<close> is missing from the sources.
  Section 4.2: the group is looked up by branch and id; \<^verbatim>\<open>group-removed\<close> is published
  with the id alone; the answer is a status without a body.
\<close>

definition deleteGroup :: "stream_env \<Rightarrow> string \<Rightarrow> string \<Rightarrow> stream_world \<Rightarrow> response \<times> stream_world" where
  "deleteGroup e branch gid w =
     (case find (\<lambda>g. branchId g = branch \<and> groupId g = gid) (groups w) of
        None \<Rightarrow> (SendStatus 500, w)
      | Some g \<Rightarrow>
          (case publish e ''group-removed'' (IdOnly (groupId g)) w of
             (True, w1) \<Rightarrow> (SendStatus 200, w1)
           | (False, w1) \<Rightarrow> (SendStatus 500, w1)))"

text \<open>
  Modelled from the spec: \<^verbatim>\<open>groupsController.getBranchGroups\<close> is missing from the
  sources. Section 4.2: it filters the full group collection by the branch and answers
  \<^verbatim>\<open>{groups: [...]}\<close>, with no mutation and no publish.
\<close>

definition getBranchGroups :: "string \<Rightarrow> stream_world \<Rightarrow> response \<times> stream_world" where
  "getBranchGroups branch w =
     (StatusJson 200 (GroupsJson (filter (\<lambda>g. branchId g = branch) (groups w))), w)"

text \<open>
  The groups of the controller's tests, a stream that rejects every publish and one that
  accepts every publish.
\<close>

definition test_groups :: stream_world where
  "test_groups =
     \<lparr>groups =
        [\<lparr>groupId = ''1'', branchId = ''some-branch-id'', name = ''First'', description = ''a''\<rparr>,
         \<lparr>groupId = ''2'', branchId = ''some-other-id'', name = ''Second'', description = ''b''\<rparr>,
         \<lparr>groupId = ''3'', branchId = ''some-branch-id'', name = ''Third'', description = ''c''\<rparr>],
      published = [], idsGenerated = 0\<rparr>"

definition bummer :: stream_env where
  "bummer = \<lparr>publishRejects = (\<lambda>n. True), generateId = (\<lambda>n. ''id-'' @ replicate n CHR ''x'')\<rparr>"

definition calm :: stream_env where
  "calm = \<lparr>publishRejects = (\<lambda>n. False), generateId = (\<lambda>n. ''id-'' @ replicate n CHR ''x'')\<rparr>"

section \<open>Concrete inputs\<close>

text \<open>A store that never rejects, and an identifier source.\<close>

definition no_faults :: env where
  "no_faults = \<lparr>faults = (\<lambda>n. None), uuid_v4 = (\<lambda>n. ''uuid-'' @ replicate n CHR ''x'')\<rparr>"

text \<open>A store whose first call is rejected.\<close>

definition first_call_fails :: env where
  "first_call_fails =
     \<lparr>faults = (\<lambda>n. if n = 0 then Some (StoreFailure ''connection refused'') else None),
      uuid_v4 = (\<lambda>n. ''uuid-'' @ replicate n CHR ''x'')\<rparr>"

text \<open>A store whose second call is rejected.\<close>

definition second_call_fails :: env where
  "second_call_fails =
     \<lparr>faults = (\<lambda>n. if n = 1 then Some (StoreFailure ''deadlock'') else None),
      uuid_v4 = (\<lambda>n. ''uuid-'' @ replicate n CHR ''x'')\<rparr>"

definition empty_world :: world where
  "empty_world = \<lparr>members = [], addresses = [], trace = [], log = [], uuidCalls = 0\<rparr>"

definition home :: address where
  "home = \<lparr>street = ''1 Main St'', city = ''Melbourne'', state = ''VIC'', postcode = ''3000'',
            country = ''Australia''\<rparr>"

definition po_box :: address where
  "po_box = \<lparr>street = ''PO Box 7'', city = ''Carlton'', state = ''VIC'', postcode = ''3053'',
              country = ''Australia''\<rparr>"

definition alice :: member where
  "alice = \<lparr>firstName = ''Alice'', lastName = ''Smith'', email = ''alice@example.org'',
             gender = ''f'', dateOfBirth = ''01/02/1990'', primaryPhoneNumber = ''0400000000'',
             secondaryPhoneNumber = ''0400000001'', residentialAddress = home,
             postalAddress = po_box, membershipType = ''full''\<rparr>"

definition alice_row :: "bool \<Rightarrow> member_row" where
  "alice_row v =
     \<lparr>mFirstName = ''Alice'', mLastName = ''Smith'', mEmail = ''alice@example.org'',
      mGender = ''f'', mDateOfBirth = MomentToDate ''01/02/1990'' ''DD/MM/YYYY'',
      mPrimaryPhoneNumber = ''0400000000'', mSecondaryPhoneNumber = ''0400000001'',
      residentialAddressId = 1, postalAddressId = 2, mMembershipType = ''full'',
      verified = v, verificationHash = ''uuid-'', memberId = 1\<rparr>"

text \<open>The store after Alice has signed up; the flag says whether she is verified.\<close>

definition alice_world :: "bool \<Rightarrow> world" where
  "alice_world v =
     \<lparr>members = [alice_row v],
      addresses = [\<lparr>addressId = 1, addressAttrs = home\<rparr>, \<lparr>addressId = 2, addressAttrs = po_box\<rparr>],
      trace = [], log = [], uuidCalls = 1\<rparr>"

section \<open>Frame lemmas of the store operations\<close>

lemma find_append_Some: "find P xs = Some r \<Longrightarrow> find P (xs @ ys) = Some r"
  by (induction xs) (auto split: if_splits)

lemma find_append_None: "find P xs = None \<Longrightarrow> find P (xs @ ys) = find P ys"
  by (induction xs) (auto split: if_splits)

lemma findOrCreate_Inr:
  assumes "findOrCreate e a w = (Inr (r, c), w')"
  shows "trace w' = trace w @ [Address_findOrCreate a]"
    and "members w' = members w"
    and "log w' = log w"
    and "uuidCalls w' = uuidCalls w"
    and "find (\<lambda>r. addressAttrs r = a) (addresses w') = Some r"
    and "\<exists>ys. addresses w' = addresses w @ ys"
  using assms
  by (auto simp add: findOrCreate_def issue_def Let_def find_append_None
      split: option.splits prod.splits)

lemma findOrCreate_frame:
  "trace (snd (findOrCreate e a w)) = trace w @ [Address_findOrCreate a]"
  "members (snd (findOrCreate e a w)) = members w"
  "log (snd (findOrCreate e a w)) = log w"
  "uuidCalls (snd (findOrCreate e a w)) = uuidCalls w"
  by (auto simp add: findOrCreate_def issue_def Let_def split: option.splits prod.splits)

lemma find_by_email_frame:
  "members (snd (find_by_email e x w)) = members w"
  "addresses (snd (find_by_email e x w)) = addresses w"
  "trace (snd (find_by_email e x w)) = trace w @ [Member_find x]"
  by (auto simp add: find_by_email_def issue_def split: option.splits)

lemma find_by_email_None:
  "find (\<lambda>r. mEmail r = x) (members w) = None \<Longrightarrow> fst (find_by_email e x w) \<noteq> Inr (Some u)"
  by (auto simp add: find_by_email_def issue_def split: option.splits)

lemma logged_frame:
  "members (logged x w) = members w"
  "addresses (logged x w) = addresses w"
  "trace (logged x w) = trace w"
  by (simp_all add: logged_def)

lemma set_columns_updatedMember:
  "verified (set_columns (updatedMember m residential postal) r) = verified r"
  "verificationHash (set_columns (updatedMember m residential postal) r) = verificationHash r"
  by (simp_all add: updatedMember_def set_column_def)

lemma update_where_email_verification:
  "map verified (members (snd (update_where_email e (updatedMember m residential postal) x w))) =
     map verified (members w)"
  "map verificationHash (members (snd (update_where_email e (updatedMember m residential postal) x w))) =
     map verificationHash (members w)"
  by (auto simp add: update_where_email_def issue_def set_columns_updatedMember split: option.splits)

lemma update_where_email_result:
  assumes "update_where_email e (updatedMember m residential postal) x w = (r, w')"
  shows "map verified (members w') = map verified (members w)"
    and "map verificationHash (members w') = map verificationHash (members w)"
  using update_where_email_verification[of e m residential postal x w] assms by simp_all

lemma transformMember_queried:
  "transformMember (queried rows r) =
     (case find (\<lambda>a. addressId a = residentialAddressId r) rows of
        None \<Rightarrow> Inl TypeError
      | Some a \<Rightarrow>
          Inr (JObj [(''id'', JNum (memberId r)),
                     (''firstName'', JStr (mFirstName r)),
                     (''lastName'', JStr (mLastName r)),
                     (''membershipType'', JStr (mMembershipType r)),
                     (''verified'', JBool (verified r)),
                     (''residentialAddress'',
                        JObj [(''postcode'', JStr (postcode (addressAttrs a))),
                              (''state'', JStr (state (addressAttrs a))),
                              (''country'', JStr (country (addressAttrs a)))])]))"
  by (simp add: transformMember_def queried_def included_address_def read_key_def
      Object_assign_def own_properties_def split: option.splits)

lemma transformMembers_queried:
  "transformMembers (map (queried rows) rs) = Inr xs \<Longrightarrow>
   list_all2
     (\<lambda>x r. \<exists>a. find (\<lambda>a. addressId a = residentialAddressId r) rows = Some a
        \<and> x = JObj [(''id'', JNum (memberId r)),
                     (''firstName'', JStr (mFirstName r)),
                     (''lastName'', JStr (mLastName r)),
                     (''membershipType'', JStr (mMembershipType r)),
                     (''verified'', JBool (verified r)),
                     (''residentialAddress'',
                        JObj [(''postcode'', JStr (postcode (addressAttrs a))),
                              (''state'', JStr (state (addressAttrs a))),
                              (''country'', JStr (country (addressAttrs a)))])])
     xs rs"
proof (induction rs arbitrary: xs)
  case Nil
  then show ?case by simp
next
  case (Cons r rs)
  then show ?case
    by (auto simp add: transformMember_queried split: sum.splits option.splits)
qed

section \<open>The group controller and the event stream\<close>

text \<open>
  C1. When the publish on the event stream is rejected, a create or update request whose
  name and description pass the validation, and every delete request, is answered with
  \<^verbatim>\<open>sendStatus(500)\<close>; so none of them is answered with 200.
\<close>

theorem publish_rejection_yields_500:
  assumes "publishRejects e (length (published w))"
  shows "(isNonEmptyString n \<and> isNonEmptyString d \<longrightarrow>
            fst (createGroup e b n d w) = SendStatus 500)
       \<and> (isNonEmptyString n \<and> isNonEmptyString d \<longrightarrow>
            fst (updateGroup e b gid n d w) = SendStatus 500)
       \<and> fst (deleteGroup e b gid w) = SendStatus 500"
  using assms
  by (auto simp add: createGroup_def updateGroup_def deleteGroup_def publish_def Let_def
      split: option.splits)

theorem publish_rejection_yields_500_witness:
  "publishRejects bummer (length (published test_groups))
   \<and> isNonEmptyString (Some ''new-name'') \<and> isNonEmptyString (Some ''new-description'')
   \<and> fst (createGroup bummer ''some-branch-id'' (Some ''new-name'') (Some ''new-description'')
            test_groups) = SendStatus 500
   \<and> fst (updateGroup bummer ''some-branch-id'' ''1'' (Some ''new-name'') (Some ''new-description'')
            test_groups) = SendStatus 500
   \<and> fst (deleteGroup bummer ''some-branch-id'' ''1'' test_groups) = SendStatus 500"
proof -
  have h: "publishRejects bummer (length (published test_groups))"
    by (simp add: bummer_def)
  have v: "isNonEmptyString (Some ''new-name'') \<and> isNonEmptyString (Some ''new-description'')"
    by (simp add: isNonEmptyString_def)
  from publish_rejection_yields_500[OF h, of "Some ''new-name''" "Some ''new-description''"
      "''some-branch-id''" "''1''"] h v
  show ?thesis by simp
qed

text \<open>
  C3. A create request whose name or description fails the non-empty check (null or the
  empty string) is answered with \<^verbatim>\<open>sendStatus(400)\<close>, and the world is left as it was:
  nothing is published, no id is generated and no group is written.
\<close>

theorem createGroup_invalid_input:
  assumes "\<not> isNonEmptyString n \<or> \<not> isNonEmptyString d"
  shows "createGroup e b n d w = (SendStatus 400, w)"
  using assms by (auto simp add: createGroup_def)

theorem createGroup_invalid_input_witness:
  "\<not> isNonEmptyString None \<and> \<not> isNonEmptyString (Some '''')
   \<and> createGroup calm ''some-branch-id'' None (Some ''some-description'') test_groups =
        (SendStatus 400, test_groups)
   \<and> createGroup calm ''some-branch-id'' (Some ''some-name'') (Some '''') test_groups =
        (SendStatus 400, test_groups)"
proof -
  have h1: "\<not> isNonEmptyString None"
    by (simp add: isNonEmptyString_def)
  have h2: "\<not> isNonEmptyString (Some '''')"
    by (simp add: isNonEmptyString_def)
  from createGroup_invalid_input[OF disjI1[OF h1], of calm "''some-branch-id''"
      "Some ''some-description''" test_groups]
    createGroup_invalid_input[OF disjI2[OF h2], of calm "''some-branch-id''"
      "Some ''some-name''" test_groups] h1 h2
  show ?thesis by simp
qed

text \<open>
  C7. For every branch and every collection of groups, \<^verbatim>\<open>getBranchGroups\<close> answers 200
  with \<^verbatim>\<open>{groups: gs}\<close>, where \<open>gs\<close> holds exactly the groups of the collection whose
  branch is the queried one, in the order of the collection; the world is left as it was
  (nothing is published, nothing is written).
\<close>

theorem getBranchGroups_filters:
  "\<exists>gs. getBranchGroups b w = (StatusJson 200 (GroupsJson gs), w)
      \<and> gs = filter (\<lambda>g. branchId g = b) (groups w)
      \<and> subseq gs (groups w)
      \<and> set gs = {g. g \<in> set (groups w) \<and> branchId g = b}"
  by (auto simp add: getBranchGroups_def)

section \<open>Verification\<close>

text \<open>
  C2. When the member found by the hash is verified already, \<^verbatim>\<open>verify\<close> issues the
  lookup and nothing else on the store: no update is issued and the table of members is
  unchanged. When the lookup is not rejected, the call resolves to the current state of the
  member, in which \<^verbatim>\<open>verified\<close> is true.
\<close>

theorem verify_already_verified:
  assumes "find (\<lambda>r. verificationHash r = h) (members w) = Some r" and "verified r"
  shows "members (snd (verify e h w)) = members w
       \<and> trace (snd (verify e h w)) = trace w @ [Member_findOne h]
       \<and> (faults e (length (trace w)) = None \<longrightarrow>
            fst (verify e h w) = Inr (projection r) \<and> vVerified (projection r))"
  using assms
  by (cases "faults e (length (trace w))")
     (simp_all add: verify_def findForVerification_def findOne_def issue_def markAsVerified_def
        logged_def projection_def)

theorem verify_already_verified_witness:
  "find (\<lambda>r. verificationHash r = ''uuid-'') (members (alice_world True)) = Some (alice_row True)
   \<and> verified (alice_row True)
   \<and> faults no_faults (length (trace (alice_world True))) = None
   \<and> members (snd (verify no_faults ''uuid-'' (alice_world True))) = [alice_row True]
   \<and> trace (snd (verify no_faults ''uuid-'' (alice_world True))) = [Member_findOne ''uuid-'']
   \<and> fst (verify no_faults ''uuid-'' (alice_world True)) =
        Inr \<lparr>vId = 1, vEmail = ''alice@example.org'', vVerified = True\<rparr>"
proof -
  have h1: "find (\<lambda>r. verificationHash r = ''uuid-'') (members (alice_world True)) = Some (alice_row True)"
    by (simp add: alice_world_def alice_row_def)
  have h2: "verified (alice_row True)"
    by (simp add: alice_row_def)
  have h3: "faults no_faults (length (trace (alice_world True))) = None"
    by (simp add: no_faults_def)
  have m: "members (alice_world True) = [alice_row True]" "trace (alice_world True) = []"
    by (simp_all add: alice_world_def)
  have p: "projection (alice_row True) = \<lparr>vId = 1, vEmail = ''alice@example.org'', vVerified = True\<rparr>"
    by (simp add: projection_def alice_row_def)
  from verify_already_verified[OF h1 h2, of no_faults] h1 h2 h3 m p
  show ?thesis by simp
qed

text \<open>
  C6. \<^verbatim>\<open>verify\<close> fails when no member has the hash. Whenever it fails, after a rejected
  lookup, a missing match or a rejected update, the caller gets the error with the message
  \<^verbatim>\<open>Account could not be verified\<close> and nothing else, and the internal error goes to the
  log under \<^verbatim>\<open>[member-verification-failed]\<close>; for a missing match that internal
  error is \<^verbatim>\<open>Match not found for hash:\<close> followed by the hash.
\<close>

theorem verify_failure_is_generic:
  "(find (\<lambda>r. verificationHash r = h) (members w) = None \<longrightarrow>
      fst (verify e h w) = Inl (Error ''Account could not be verified''))
   \<and> (\<forall>err. fst (verify e h w) = Inl err \<longrightarrow>
         err = Error ''Account could not be verified''
         \<and> (\<exists>detail. log (snd (verify e h w)) =
               log w @ [ErrorTagged ''[member-verification-failed]'' detail]))
   \<and> (find (\<lambda>r. verificationHash r = h) (members w) = None
        \<and> faults e (length (trace w)) = None \<longrightarrow>
        log (snd (verify e h w)) =
          log w @ [ErrorTagged ''[member-verification-failed]''
                     (Error (''Match not found for hash:'' @ h))])"
  by (auto simp add: verify_def findForVerification_def findOne_def issue_def markAsVerified_def
        update_instance_def logged_def projection_def
      split: option.splits prod.splits sum.splits if_splits)

theorem verify_failure_is_generic_witness:
  "find (\<lambda>r. verificationHash r = ''nope'') (members (alice_world False)) = None
   \<and> faults no_faults (length (trace (alice_world False))) = None
   \<and> fst (verify no_faults ''nope'' (alice_world False)) =
        Inl (Error ''Account could not be verified'')
   \<and> log (snd (verify no_faults ''nope'' (alice_world False))) =
        [ErrorTagged ''[member-verification-failed]'' (Error ''Match not found for hash:nope'')]
   \<and> fst (verify first_call_fails ''uuid-'' (alice_world False)) =
        Inl (Error ''Account could not be verified'')
   \<and> fst (verify second_call_fails ''uuid-'' (alice_world False)) =
        Inl (Error ''Account could not be verified'')"
proof -
  have h1: "find (\<lambda>r. verificationHash r = ''nope'') (members (alice_world False)) = None"
    by (simp add: alice_world_def alice_row_def)
  have h2: "faults no_faults (length (trace (alice_world False))) = None"
    by (simp add: no_faults_def)
  have l: "log (alice_world False) = []"
    by (simp add: alice_world_def)
  have f: "\<exists>err. fst (verify first_call_fails ''uuid-'' (alice_world False)) = Inl err"
    by (simp add: verify_def findForVerification_def findOne_def issue_def first_call_fails_def
        alice_world_def)
  note t1 = verify_failure_is_generic[of "''nope''" "alice_world False" no_faults]
  note t2 = verify_failure_is_generic[of "''uuid-''" "alice_world False" first_call_fails]
  have a: "fst (verify no_faults ''nope'' (alice_world False)) =
        Inl (Error ''Account could not be verified'')"
    using conjunct1[OF t1] h1 by (rule mp)
  have "log (snd (verify no_faults ''nope'' (alice_world False))) =
        log (alice_world False) @
          [ErrorTagged ''[member-verification-failed]'' (Error (''Match not found for hash:'' @ ''nope''))]"
    using conjunct2[OF conjunct2[OF t1]] conjI[OF h1 h2] by (rule mp)
  then have b: "log (snd (verify no_faults ''nope'' (alice_world False))) =
        [ErrorTagged ''[member-verification-failed]'' (Error ''Match not found for hash:nope'')]"
    unfolding l by simp
  from f obtain err where err: "fst (verify first_call_fails ''uuid-'' (alice_world False)) = Inl err"
    by (rule exE)
  have "err = Error ''Account could not be verified''"
    using conjunct1[OF conjunct2[OF t2]] err by blast
  with err have c: "fst (verify first_call_fails ''uuid-'' (alice_world False)) =
        Inl (Error ''Account could not be verified'')"
    by (simp only:)
  have "\<exists>err. fst (verify second_call_fails ''uuid-'' (alice_world False)) = Inl err"
    by (simp add: verify_def findForVerification_def findOne_def issue_def markAsVerified_def
        update_instance_def projection_def second_call_fails_def alice_world_def alice_row_def)
  then obtain err' where err': "fst (verify second_call_fails ''uuid-'' (alice_world False)) = Inl err'"
    by (rule exE)
  note t3 = verify_failure_is_generic[of "''uuid-''" "alice_world False" second_call_fails]
  have "err' = Error ''Account could not be verified''"
    using conjunct1[OF conjunct2[OF t3]] err' by blast
  with err' have d: "fst (verify second_call_fails ''uuid-'' (alice_world False)) =
        Inl (Error ''Account could not be verified'')"
    by (simp only:)
  show ?thesis
    using h1 h2 a b c d by (intro conjI)
qed

section \<open>Signing up and updating\<close>

text \<open>
  C4. Every successful \<^verbatim>\<open>createMember\<close> issues, in this order, the find-or-create of the
  residential address, the find-or-create of the postal address and one
  \<^verbatim>\<open>Member.create\<close>. The record handed to \<^verbatim>\<open>Member.create\<close> has
  \<^verbatim>\<open>verified = false\<close>, the verification hash drawn from the generator during this call,
  and the ids of the two resolved addresses. The row appended to the table is that record
  with its generated key, and this row is the value returned.
\<close>

theorem createMember_success:
  assumes "createMember e newMember w = (Inr saved, w')"
  shows "\<exists>attrs residential postal.
      trace w' = trace w @ [Address_findOrCreate (residentialAddress newMember),
                            Address_findOrCreate (postalAddress newMember),
                            Member_create attrs]
    \<and> verified attrs = False
    \<and> verificationHash attrs = uuid_v4 e (uuidCalls w)
    \<and> uuidCalls w' = Suc (uuidCalls w)
    \<and> find (\<lambda>r. addressAttrs r = residentialAddress newMember) (addresses w') = Some residential
    \<and> residentialAddressId attrs = addressId residential
    \<and> find (\<lambda>r. addressAttrs r = postalAddress newMember) (addresses w') = Some postal
    \<and> postalAddressId attrs = addressId postal
    \<and> saved = with_id attrs (memberId saved)
    \<and> members w' = members w @ [saved]
    \<and> verified saved = False
    \<and> verificationHash saved = uuid_v4 e (uuidCalls w)"
proof -
  obtain p w1 where f1: "findOrCreate e (residentialAddress newMember) w = (p, w1)"
    by (cases "findOrCreate e (residentialAddress newMember) w")
  obtain q w2 where f2: "findOrCreate e (postalAddress newMember) w1 = (q, w2)"
    by (cases "findOrCreate e (postalAddress newMember) w1")
  from assms f1 f2 obtain ra ca pa cb where p: "p = Inr (ra, ca)" and q: "q = Inr (pa, cb)"
    by (auto simp add: createMember_def getMemberAddresses_def Q_all2_def
        split: sum.splits prod.splits)
  note r1 = findOrCreate_Inr[OF f1[unfolded p]]
  note r2 = findOrCreate_Inr[OF f2[unfolded q]]
  obtain attrs w3 where s: "setupMember e newMember (ra, ca) (pa, cb) w2 = (attrs, w3)"
    by (cases "setupMember e newMember (ra, ca) (pa, cb) w2")
  from s have v: "verified attrs = False" "verificationHash attrs = uuid_v4 e (uuidCalls w2)"
    "residentialAddressId attrs = addressId ra" "postalAddressId attrs = addressId pa"
    and w3: "w3 = w2\<lparr>uuidCalls := Suc (uuidCalls w2)\<rparr>"
    by (auto simp add: setupMember_def createVerificationHash_def)
  from assms f1 f2 p q s
  have sv: "save e attrs w3 =
      (Inr saved, w3\<lparr>trace := trace w3 @ [Member_create attrs], members := members w3 @ [saved]\<rparr>)"
    and w': "w' = logEvent saved
      (w3\<lparr>trace := trace w3 @ [Member_create attrs], members := members w3 @ [saved]\<rparr>)"
    by (auto simp add: createMember_def getMemberAddresses_def Q_all2_def save_def issue_def Let_def
        split: sum.splits prod.splits option.splits)
  from sv have sid: "saved = with_id attrs (memberId saved)"
    by (auto simp add: save_def issue_def Let_def with_id_def split: option.splits)
  from r2(6) obtain ys where ys: "addresses w2 = addresses w1 @ ys" by blast
  have fr: "find (\<lambda>r. addressAttrs r = residentialAddress newMember) (addresses w') = Some ra"
    using r1(5) ys by (simp add: w' w3 logEvent_def logged_def find_append_Some)
  have fp: "find (\<lambda>r. addressAttrs r = postalAddress newMember) (addresses w') = Some pa"
    using r2(5) by (simp add: w' w3 logEvent_def logged_def)
  have tr: "trace w' = trace w @ [Address_findOrCreate (residentialAddress newMember),
                            Address_findOrCreate (postalAddress newMember),
                            Member_create attrs]"
    using r1(1) r2(1) by (simp add: w' w3 logEvent_def logged_def)
  have uc: "uuidCalls w' = Suc (uuidCalls w)"
    using r1(4) r2(4) by (simp add: w' w3 logEvent_def logged_def)
  have ms: "members w' = members w @ [saved]"
    using r1(2) r2(2) by (simp add: w' w3 logEvent_def logged_def)
  have vh: "verificationHash attrs = uuid_v4 e (uuidCalls w)"
    using v(2) r1(4) r2(4) by simp
  have sv': "verified saved = False" "verificationHash saved = uuid_v4 e (uuidCalls w)"
    using v(1) vh by (subst sid, simp add: with_id_def)+
  show ?thesis
    using tr v(1) vh uc fr v(3) fp v(4) sid ms sv' by blast
qed

theorem createMember_success_witness:
  "createMember no_faults alice empty_world =
     (Inr (alice_row False), snd (createMember no_faults alice empty_world))
   \<and> verified (alice_row False) = False
   \<and> verificationHash (alice_row False) = uuid_v4 no_faults (uuidCalls empty_world)
   \<and> members (snd (createMember no_faults alice empty_world)) = [alice_row False]
   \<and> uuidCalls (snd (createMember no_faults alice empty_world)) = 1"
proof -
  have f: "fst (createMember no_faults alice empty_world) = Inr (alice_row False)"
    by (simp add: createMember_def getMemberAddresses_def findOrCreate_def issue_def Q_all2_def
        setupMember_def createVerificationHash_def save_def with_id_def logEvent_def logged_def
        no_faults_def alice_def empty_world_def home_def po_box_def fresh_id_def Let_def
        alice_row_def)
  have h: "createMember no_faults alice empty_world =
     (Inr (alice_row False), snd (createMember no_faults alice empty_world))"
    using f by (metis prod.collapse)
  have e: "members empty_world = []" "uuidCalls empty_world = 0"
    by (simp_all add: empty_world_def)
  from createMember_success[OF h] obtain attrs residential postal where
    c: "uuidCalls (snd (createMember no_faults alice empty_world)) = Suc (uuidCalls empty_world)"
       "members (snd (createMember no_faults alice empty_world)) = members empty_world @ [alice_row False]"
       "verified (alice_row False) = False"
       "verificationHash (alice_row False) = uuid_v4 no_faults (uuidCalls empty_world)"
    by blast
  show ?thesis
    using h c unfolding e by simp
qed

text \<open>
  C5. When no row of the member table has the email of the request,
  \<^verbatim>\<open>updateMember\<close> is rejected, whatever the store answers to the three calls it issues,
  and it writes no member row. When none of the three calls is rejected by the store, the
  rejection is \<^verbatim>\<open>Error: User email does not exist\<close>.
\<close>

theorem updateMember_unknown_email_rejects:
  assumes "find (\<lambda>r. mEmail r = email m) (members w) = None"
  shows "(\<exists>err. fst (updateMember e m w) = Inl err)
       \<and> members (snd (updateMember e m w)) = members w
       \<and> (faults e (length (trace w)) = None \<and> faults e (Suc (length (trace w))) = None
            \<and> faults e (Suc (Suc (length (trace w)))) = None \<longrightarrow>
          fst (updateMember e m w) = Inl (Reason ''Error: User email does not exist''))"
proof -
  obtain u w1 where f0: "find_by_email e (email m) w = (u, w1)"
    by (cases "find_by_email e (email m) w")
  obtain p w2 where f1: "findOrCreate e (residentialAddress m) w1 = (p, w2)"
    by (cases "findOrCreate e (residentialAddress m) w1")
  obtain q w3 where f2: "findOrCreate e (postalAddress m) w2 = (q, w3)"
    by (cases "findOrCreate e (postalAddress m) w2")
  have u: "u \<noteq> Inr (Some x)" for x
    using find_by_email_None[OF assms, of e x] f0 by simp
  have m3: "members w3 = members w"
    using find_by_email_frame(1)[of e "email m" w]
      findOrCreate_frame(2)[of e "residentialAddress m" w1]
      findOrCreate_frame(2)[of e "postalAddress m" w2] f0 f1 f2 by simp
  have t1: "trace w1 = trace w @ [Member_find (email m)]"
    using find_by_email_frame(3)[of e "email m" w] f0 by simp
  have t2: "trace w2 = trace w1 @ [Address_findOrCreate (residentialAddress m)]"
    using findOrCreate_frame(1)[of e "residentialAddress m" w1] f1 by simp
  have a: "\<exists>err. fst (updateMember e m w) = Inl err"
    using u by (auto simp add: updateMember_def f0 f1 f2 Q_all3_def Q_all2_def
        split: sum.splits option.splits prod.splits)
  have b: "members (snd (updateMember e m w)) = members w"
    using u m3 by (auto simp add: updateMember_def f0 f1 f2 Q_all3_def Q_all2_def
        split: sum.splits option.splits prod.splits)
  have c: "fst (updateMember e m w) = Inl (Reason ''Error: User email does not exist'')"
    if "faults e (length (trace w)) = None" "faults e (Suc (length (trace w))) = None"
       "faults e (Suc (Suc (length (trace w)))) = None"
  proof -
    from that(1) f0 have "\<exists>x. u = Inr x"
      by (auto simp add: find_by_email_def issue_def)
    moreover from that(2) f1 t1 have "\<exists>x. p = Inr x"
      by (auto simp add: findOrCreate_def issue_def Let_def split: option.splits)
    moreover from that(3) f2 t1 t2 have "\<exists>x. q = Inr x"
      by (auto simp add: findOrCreate_def issue_def Let_def split: option.splits)
    ultimately show ?thesis
      using u by (auto simp add: updateMember_def f0 f1 f2 Q_all3_def Q_all2_def
          split: sum.splits option.splits prod.splits)
  qed
  from a b c show ?thesis by blast
qed

theorem updateMember_unknown_email_rejects_witness:
  "find (\<lambda>r. mEmail r = email alice) (members empty_world) = None
   \<and> faults no_faults (length (trace empty_world)) = None
   \<and> faults no_faults (Suc (length (trace empty_world))) = None
   \<and> faults no_faults (Suc (Suc (length (trace empty_world)))) = None
   \<and> fst (updateMember no_faults alice empty_world) =
        Inl (Reason ''Error: User email does not exist'')
   \<and> members (snd (updateMember no_faults alice empty_world)) = members empty_world"
proof -
  have h: "find (\<lambda>r. mEmail r = email alice) (members empty_world) = None"
    by (simp add: empty_world_def)
  have n: "faults no_faults (length (trace empty_world)) = None"
    "faults no_faults (Suc (length (trace empty_world))) = None"
    "faults no_faults (Suc (Suc (length (trace empty_world)))) = None"
    by (simp_all add: no_faults_def)
  note t = updateMember_unknown_email_rejects[OF h, of no_faults]
  have a: "fst (updateMember no_faults alice empty_world) =
        Inl (Reason ''Error: User email does not exist'')"
    using conjunct2[OF conjunct2[OF t]] conjI[OF n(1) conjI[OF n(2) n(3)]] by (rule mp)
  have b: "members (snd (updateMember no_faults alice empty_world)) = members empty_world"
    using conjunct1[OF conjunct2[OF t]] .
  show ?thesis
    using h n a b by (intro conjI)
qed

text \<open>
  C9. The object \<^verbatim>\<open>updateMember\<close> hands to \<^verbatim>\<open>Member.update\<close> has neither the key
  \<^verbatim>\<open>verified\<close> nor the key \<^verbatim>\<open>verificationHash\<close>; it is the only write the call can
  issue on the member table; and after every call, rejected or not, each member row has the
  \<^verbatim>\<open>verified\<close> flag and the verification hash it had before.
\<close>

theorem updateMember_keeps_verification:
  "map_of (updatedMember m residential postal) ''verified'' = None
   \<and> map_of (updatedMember m residential postal) ''verificationHash'' = None
   \<and> map verified (members (snd (updateMember e m w))) = map verified (members w)
   \<and> map verificationHash (members (snd (updateMember e m w))) = map verificationHash (members w)
   \<and> (\<exists>residential postal.
         trace (snd (updateMember e m w)) =
           trace w @ [Member_find (email m), Address_findOrCreate (residentialAddress m),
                      Address_findOrCreate (postalAddress m)]
       \<or> trace (snd (updateMember e m w)) =
           trace w @ [Member_find (email m), Address_findOrCreate (residentialAddress m),
                      Address_findOrCreate (postalAddress m),
                      Member_update (updatedMember m residential postal) (email m)])"
proof -
  obtain u w1 where f0: "find_by_email e (email m) w = (u, w1)"
    by (cases "find_by_email e (email m) w")
  obtain p w2 where f1: "findOrCreate e (residentialAddress m) w1 = (p, w2)"
    by (cases "findOrCreate e (residentialAddress m) w1")
  obtain q w3 where f2: "findOrCreate e (postalAddress m) w2 = (q, w3)"
    by (cases "findOrCreate e (postalAddress m) w2")
  have m3: "members w3 = members w"
    using find_by_email_frame(1)[of e "email m" w]
      findOrCreate_frame(2)[of e "residentialAddress m" w1]
      findOrCreate_frame(2)[of e "postalAddress m" w2] f0 f1 f2 by simp
  have t3: "trace w3 = trace w @ [Member_find (email m), Address_findOrCreate (residentialAddress m),
                      Address_findOrCreate (postalAddress m)]"
    using find_by_email_frame(3)[of e "email m" w]
      findOrCreate_frame(1)[of e "residentialAddress m" w1]
      findOrCreate_frame(1)[of e "postalAddress m" w2] f0 f1 f2 by simp
  have k: "map_of (updatedMember m residential postal) ''verified'' = None"
      "map_of (updatedMember m residential postal) ''verificationHash'' = None"
    by (simp_all add: updatedMember_def)
  have v: "map verified (members (snd (updateMember e m w))) = map verified (members w)"
    using m3
    by (auto simp add: updateMember_def f0 f1 f2 logged_frame
        split: sum.splits option.splits prod.splits dest: update_where_email_result(1))
  have h: "map verificationHash (members (snd (updateMember e m w))) = map verificationHash (members w)"
    using m3
    by (auto simp add: updateMember_def f0 f1 f2 logged_frame
        split: sum.splits option.splits prod.splits dest: update_where_email_result(2))
  have tu: "trace (snd (update_where_email e vs x w3)) = trace w3 @ [Member_update vs x]" for vs x
    by (auto simp add: update_where_email_def issue_def split: option.splits)
  have t: "\<exists>residential postal.
         trace (snd (updateMember e m w)) =
           trace w @ [Member_find (email m), Address_findOrCreate (residentialAddress m),
                      Address_findOrCreate (postalAddress m)]
       \<or> trace (snd (updateMember e m w)) =
           trace w @ [Member_find (email m), Address_findOrCreate (residentialAddress m),
                      Address_findOrCreate (postalAddress m),
                      Member_update (updatedMember m residential postal) (email m)]"
  proof (cases "Q_all3 u p q")
    case (Inl err)
    then show ?thesis by (simp add: updateMember_def f0 f1 f2 t3)
  next
    case (Inr x)
    then obtain user ra pa where x: "x = (user, ra, pa)" by (cases x) auto
    show ?thesis
    proof (cases user)
      case None
      then show ?thesis using Inr x by (simp add: updateMember_def f0 f1 f2 t3)
    next
      case (Some usr)
      have "trace (snd (updateMember e m w)) =
          trace w3 @ [Member_update (updatedMember m ra pa) (email m)]"
        using Inr x Some tu[of "updatedMember m ra pa" "email m"]
        by (auto simp add: updateMember_def f0 f1 f2 logged_frame split: sum.splits prod.splits)
      then have "trace (snd (updateMember e m w)) =
           trace w @ [Member_find (email m), Address_findOrCreate (residentialAddress m),
                      Address_findOrCreate (postalAddress m),
                      Member_update (updatedMember m ra pa) (email m)]"
        using t3 by simp
      then show ?thesis by blast
    qed
  qed
  from k v h t show ?thesis by blast
qed

text \<open>
  C10. There is an input on which \<^verbatim>\<open>updateMember\<close> is rejected and has changed the
  store: the two find-or-create calls on the addresses are issued together with the lookup
  of the member, before its result is looked at, so with an unknown email and two unknown
  addresses the call is rejected with \<^verbatim>\<open>Error: User email does not exist\<close> after both
  address rows have been created.
\<close>

theorem updateMember_rejects_after_creating_addresses:
  "\<exists>e m w. find (\<lambda>r. mEmail r = email m) (members w) = None
     \<and> fst (updateMember e m w) = Inl (Reason ''Error: User email does not exist'')
     \<and> addresses w = []
     \<and> addresses (snd (updateMember e m w)) =
         [\<lparr>addressId = 1, addressAttrs = residentialAddress m\<rparr>,
          \<lparr>addressId = 2, addressAttrs = postalAddress m\<rparr>]
     \<and> trace (snd (updateMember e m w)) =
         trace w @ [Member_find (email m), Address_findOrCreate (residentialAddress m),
                    Address_findOrCreate (postalAddress m)]"
proof -
  have "find (\<lambda>r. mEmail r = email alice) (members empty_world) = None
     \<and> fst (updateMember no_faults alice empty_world) =
         Inl (Reason ''Error: User email does not exist'')
     \<and> addresses empty_world = []
     \<and> addresses (snd (updateMember no_faults alice empty_world)) =
         [\<lparr>addressId = 1, addressAttrs = residentialAddress alice\<rparr>,
          \<lparr>addressId = 2, addressAttrs = postalAddress alice\<rparr>]
     \<and> trace (snd (updateMember no_faults alice empty_world)) =
         trace empty_world @ [Member_find (email alice),
                    Address_findOrCreate (residentialAddress alice),
                    Address_findOrCreate (postalAddress alice)]"
    by (simp add: updateMember_def find_by_email_def findOrCreate_def issue_def Q_all3_def
        Q_all2_def no_faults_def alice_def empty_world_def home_def po_box_def fresh_id_def
        Let_def)
  then show ?thesis by blast
qed

section \<open>Listing\<close>

text \<open>
  C8, as the code has it. Every successful \<^verbatim>\<open>list\<close> returns one plain object per member
  row, in the order of the table. The keys of the object are exactly \<^verbatim>\<open>id\<close>,
  \<^verbatim>\<open>firstName\<close>, \<^verbatim>\<open>lastName\<close>, \<^verbatim>\<open>membershipType\<close>, \<^verbatim>\<open>verified\<close> and
  \<^verbatim>\<open>residentialAddress\<close>; under \<^verbatim>\<open>residentialAddress\<close> sits a plain object whose
  keys are exactly \<^verbatim>\<open>postcode\<close>, \<^verbatim>\<open>state\<close> and \<^verbatim>\<open>country\<close>, with the values of the
  member's residential address. The instance wrapper of the address is removed; the address
  stays nested.
\<close>

theorem list_success_records:
  assumes "list e w = (Inr xs, w')"
  shows "list_all2
     (\<lambda>x r. \<exists>a. find (\<lambda>a. addressId a = residentialAddressId r) (addresses w) = Some a
        \<and> x = JObj [(''id'', JNum (memberId r)),
                     (''firstName'', JStr (mFirstName r)),
                     (''lastName'', JStr (mLastName r)),
                     (''membershipType'', JStr (mMembershipType r)),
                     (''verified'', JBool (verified r)),
                     (''residentialAddress'',
                        JObj [(''postcode'', JStr (postcode (addressAttrs a))),
                              (''state'', JStr (state (addressAttrs a))),
                              (''country'', JStr (country (addressAttrs a)))])])
     xs (members w)"
proof -
  from assms have "transformMembers (map (queried (addresses w)) (members w)) = Inr xs"
    by (auto simp add: list_def findAll_def issue_def handleError_def
        split: option.splits sum.splits)
  from transformMembers_queried[OF this] show ?thesis .
qed

theorem list_success_records_witness:
  "list no_faults (alice_world True) =
     (Inr [JObj [(''id'', JNum 1), (''firstName'', JStr ''Alice''), (''lastName'', JStr ''Smith''),
                 (''membershipType'', JStr ''full''), (''verified'', JBool True),
                 (''residentialAddress'',
                    JObj [(''postcode'', JStr ''3000''), (''state'', JStr ''VIC''),
                          (''country'', JStr ''Australia'')])]],
      (alice_world True)\<lparr>trace := [Member_findAll]\<rparr>)
   \<and> length (members (alice_world True)) = 1"
proof -
  have h: "list no_faults (alice_world True) =
     (Inr [JObj [(''id'', JNum 1), (''firstName'', JStr ''Alice''), (''lastName'', JStr ''Smith''),
                 (''membershipType'', JStr ''full''), (''verified'', JBool True),
                 (''residentialAddress'',
                    JObj [(''postcode'', JStr ''3000''), (''state'', JStr ''VIC''),
                          (''country'', JStr ''Australia'')])]],
      (alice_world True)\<lparr>trace := [Member_findAll]\<rparr>)"
    by (simp add: list_def findAll_def issue_def no_faults_def alice_world_def alice_row_def
        transformMember_queried home_def po_box_def)
  from list_all2_lengthD[OF list_success_records[OF h]] h
  show ?thesis by simp
qed

text \<open>
  C8, as the claim has it, fails: the record returned for a member has no top-level
  \<^verbatim>\<open>postcode\<close>, \<^verbatim>\<open>state\<close> or \<^verbatim>\<open>country\<close>; the three sit under the key
  \<^verbatim>\<open>residentialAddress\<close>.
\<close>

theorem list_address_stays_nested:
  "(case fst (list no_faults (alice_world True)) of
      Inr [JObj kvs] \<Rightarrow>
        map fst kvs = [''id'', ''firstName'', ''lastName'', ''membershipType'', ''verified'',
                       ''residentialAddress'']
        \<and> map_of kvs ''postcode'' = None \<and> map_of kvs ''state'' = None
        \<and> map_of kvs ''country'' = None
        \<and> map_of kvs ''residentialAddress'' =
            Some (JObj [(''postcode'', JStr ''3000''), (''state'', JStr ''VIC''),
                        (''country'', JStr ''Australia'')])
    | _ \<Rightarrow> False)"
  by (simp add: list_def findAll_def issue_def no_faults_def alice_world_def alice_row_def
      transformMember_queried home_def po_box_def)

end
